theory Spec2Isabelle
  imports Main "HOL-Library.Word"
begin

section \<open>Package svcerr: status errors and their HTTP translation\<close>

text \<open>
  The package \<^verbatim>\<open>svcerr\<close> (file \<^verbatim>\<open>err/err.go\<close>) builds gRPC status errors, one
  constructor per status code, and converts any Go error into a REST error structure.
  Its functions are thin layers over four libraries that are not part of the package:
  \<^verbatim>\<open>fmt\<close>, \<^verbatim>\<open>grpc/codes\<close>, \<^verbatim>\<open>grpc/status\<close> and the protobuf \<^verbatim>\<open>ptypes\<close>.
  The first sections model what those libraries do on the calls the package makes;
  the section on the package itself follows \<^verbatim>\<open>err.go\<close> line by line.

  A Go \<^verbatim>\<open>string\<close> is a sequence of bytes, and so is a HOL \<^typ>\<open>string\<close>.
\<close>

subsection \<open>Library fmt: a format string with no operands\<close>

text \<open>
  \<^verbatim>\<open>newErr\<close> calls \<^verbatim>\<open>status.Errorf(c, message)\<close>: the caller's message is the
  \<^emph>\<open>format\<close>, and there are no operands. \<^verbatim>\<open>Errorf\<close> runs \<^verbatim>\<open>fmt.Sprintf\<close> on it, so
  the printer's \<^verbatim>\<open>doPrintf\<close> scans the message for verbs. The definitions below are
  \<^verbatim>\<open>doPrintf\<close> for an empty operand list: \<^verbatim>\<open>argNum\<close> stays 0 and \<^verbatim>\<open>len(a)\<close> is 0, so
  the branches guarded by \<^verbatim>\<open>argNum < len(a)\<close> are never taken and no operand is ever
  printed; what is left is the parsing of each verb and the diagnostics
  \<^verbatim>\<open>%!(NOVERB)\<close>, \<^verbatim>\<open>%!v(MISSING)\<close>, \<^verbatim>\<open>%!v(BADINDEX)\<close>, \<^verbatim>\<open>%!(BADWIDTH)\<close>
  and \<^verbatim>\<open>%!(BADPREC)\<close>. Positions in the format are modelled by the suffix that is
  still to be read.
\<close>

definition byte :: "char \<Rightarrow> nat" where
  "byte c = of_char c"

definition is_flag :: "char \<Rightarrow> bool" where
  "is_flag c \<longleftrightarrow> c = CHR ''#'' \<or> c = CHR ''0'' \<or> c = CHR ''+'' \<or> c = CHR ''-'' \<or> c = CHR '' ''"

definition is_digit :: "char \<Rightarrow> bool" where
  "is_digit c \<longleftrightarrow> 48 \<le> byte c \<and> byte c \<le> 57"

definition tooLarge :: "nat \<Rightarrow> bool" where
  "tooLarge x \<longleftrightarrow> x > 1000000"

text \<open>
  \<^verbatim>\<open>parsenum(s, start, end)\<close> reads a decimal number from \<^verbatim>\<open>s[start:end]\<close>. The model
  takes that slice and returns the number, whether a digit was read, and the part of
  the slice not consumed. On a number that is too large Go returns \<^verbatim>\<open>newi = end\<close>:
  the whole slice counts as consumed.
\<close>

fun parsenum_from :: "nat \<Rightarrow> bool \<Rightarrow> string \<Rightarrow> nat \<times> bool \<times> string" where
  "parsenum_from num isnum [] = (num, isnum, [])"
| "parsenum_from num isnum (c # cs) =
     (if is_digit c
      then (if tooLarge num then (0, False, [])
            else parsenum_from (num * 10 + (byte c - 48)) True cs)
      else (num, isnum, c # cs))"

definition parsenum :: "string \<Rightarrow> nat \<times> bool \<times> string" where
  "parsenum s = parsenum_from 0 False s"

text \<open>
  \<^verbatim>\<open>parseArgNumber(format)\<close> is called on a suffix that starts with \<^verbatim>\<open>[\<close>; it returns
  the zero-based index, the number of bytes to skip, and whether \<^verbatim>\<open>[n]\<close> was well formed.
\<close>

definition parseArgNumber :: "string \<Rightarrow> int \<times> nat \<times> bool" where
  "parseArgNumber format =
     (if length format < 3 then (0, 1, False)
      else
        let inner = takeWhile (\<lambda>c. c \<noteq> CHR '']'') (tl format) in
        if length inner = length (tl format) then (0, 1, False)
        else
          let i = length inner + 1 in
          (case parsenum inner of
             (width, ok, rest) \<Rightarrow>
               if \<not> ok \<or> rest \<noteq> [] then (0, i + 1, False)
               else (int width - 1, i + 1, True)))"

text \<open>
  \<^verbatim>\<open>argNumber\<close> with \<^verbatim>\<open>numArgs = 0\<close>: no index is ever in range, so after a \<^verbatim>\<open>[\<close> the
  printer's \<^verbatim>\<open>goodArgNum\<close> is cleared. The result is the rest of the format, the
  \<^verbatim>\<open>found\<close> flag and the new \<^verbatim>\<open>goodArgNum\<close>.
\<close>

definition argNumber :: "bool \<Rightarrow> string \<Rightarrow> string \<times> bool \<times> bool" where
  "argNumber goodArgNum s =
     (case s of
        [] \<Rightarrow> (s, False, goodArgNum)
      | c # _ \<Rightarrow>
          if c \<noteq> CHR ''['' then (s, False, goodArgNum)
          else (case parseArgNumber s of
                  (index, wid, ok) \<Rightarrow>
                    if ok \<and> 0 \<le> index \<and> index < 0 then (drop wid s, True, goodArgNum)
                    else (drop wid s, ok, False)))"

text \<open>
  The verb is one rune. \<^verbatim>\<open>utf8.DecodeRuneInString\<close> gives the rune and its size; an
  ill-formed sequence decodes to \<^verbatim>\<open>RuneError\<close> (U+FFFD) with size 1. The diagnostics
  write the rune back with \<^verbatim>\<open>writeRune\<close>, which for a well-formed sequence gives the
  bytes that were read. \<open>decodeVerb\<close> returns the bytes written for the verb and the
  number of bytes read.
\<close>

definition RuneError :: string where
  "RuneError = [char_of (239::nat), char_of (191::nat), char_of (189::nat)]"

definition in_range :: "nat \<Rightarrow> nat \<Rightarrow> string \<Rightarrow> nat \<Rightarrow> bool" where
  "in_range lo hi s k \<longleftrightarrow> k < length s \<and> lo \<le> byte (s ! k) \<and> byte (s ! k) \<le> hi"

definition decodeVerb :: "string \<Rightarrow> string \<times> nat" where
  "decodeVerb s =
     (let s0 = byte (hd s);
          sz = (if s0 < 128 then 1
                else if 194 \<le> s0 \<and> s0 \<le> 223 then 2
                else if 224 \<le> s0 \<and> s0 \<le> 239 then 3
                else if 240 \<le> s0 \<and> s0 \<le> 244 then 4
                else 0);
          lo = (if s0 = 224 then 160 else if s0 = 240 then 144 else 128);
          hi = (if s0 = 237 then 159 else if s0 = 244 then 143 else 191)
      in if sz = 1 then ([hd s], 1)
         else if sz = 0 then (RuneError, 1)
         else if length s < sz then (RuneError, 1)
         else if \<not> in_range lo hi s 1 then (RuneError, 1)
         else if sz \<le> 2 then (take 2 s, 2)
         else if \<not> in_range 128 191 s 2 then (RuneError, 1)
         else if sz \<le> 3 then (take 3 s, 3)
         else if \<not> in_range 128 191 s 3 then (RuneError, 1)
         else (take 4 s, 4))"

text \<open>
  One verb: \<open>s\<close> is the format after the \<^verbatim>\<open>%\<close>. The result is the text written and
  the rest of the format, or \<open>None\<close> when the format ended inside the verb (Go leaves
  the loop there).
\<close>

definition width_step :: "string \<Rightarrow> bool \<Rightarrow> bool \<Rightarrow> string \<times> string \<times> bool \<times> bool" where
  "width_step s afterIndex goodArgNum =
     (case s of
        c # cs \<Rightarrow>
          if c = CHR ''*'' then (''%!(BADWIDTH)'', cs, False, goodArgNum)
          else (case parsenum s of
                  (wid, widPresent, s') \<Rightarrow>
                    ([], s', afterIndex, (if afterIndex \<and> widPresent then False else goodArgNum)))
      | [] \<Rightarrow> ([], [], afterIndex, goodArgNum))"

definition prec_step :: "string \<Rightarrow> bool \<Rightarrow> bool \<Rightarrow> string \<times> string \<times> bool \<times> bool" where
  \<comment> \<open>\<^verbatim>\<open>if i+1 < end && format[i] == '.'\<close>: a \<^verbatim>\<open>.\<close> that ends the format is the verb\<close>
  "prec_step s afterIndex goodArgNum =
     (case s of
        c # cs \<Rightarrow>
          if c = CHR ''.'' \<and> cs \<noteq> []
          then (case argNumber (if afterIndex then False else goodArgNum) cs of
                  (s1, afterIndex1, good1) \<Rightarrow>
                    (case s1 of
                       d # ds \<Rightarrow>
                         if d = CHR ''*'' then (''%!(BADPREC)'', ds, False, good1)
                         else (case parsenum s1 of
                                 (prec, precPresent, s2) \<Rightarrow> ([], s2, afterIndex1, good1))
                     | [] \<Rightarrow> ([], [], afterIndex1, good1)))
          else ([], s, afterIndex, goodArgNum)
      | [] \<Rightarrow> ([], [], afterIndex, goodArgNum))"

definition verb_step :: "string \<Rightarrow> string \<times> string option" where
  "verb_step s =
     (case argNumber True (dropWhile is_flag s) of
        (s1, afterIndex1, good1) \<Rightarrow>
     (case width_step s1 afterIndex1 good1 of
        (out2, s2, afterIndex2, good2) \<Rightarrow>
     (case prec_step s2 afterIndex2 good2 of
        (out3, s3, afterIndex3, good3) \<Rightarrow>
     (case (if \<not> afterIndex3 then argNumber good3 s3 else (s3, afterIndex3, good3)) of
        (s4, afterIndex4, good4) \<Rightarrow>
          if s4 = [] then (out2 @ out3 @ ''%!(NOVERB)'', None)
          else (case decodeVerb s4 of
                  (verb, sz) \<Rightarrow>
                    if verb = ''%'' then (out2 @ out3 @ ''%'', Some (drop sz s4))
                    else if \<not> good4
                    then (out2 @ out3 @ ''%!'' @ verb @ ''(BADINDEX)'', Some (drop sz s4))
                    else (out2 @ out3 @ ''%!'' @ verb @ ''(MISSING)'', Some (drop sz s4)))))))"

lemma parsenum_from_length: "length (snd (snd (parsenum_from n b s))) \<le> length s"
  by (induction s arbitrary: n b) (auto simp: le_SucI)

lemma parsenum_length: "parsenum s = (n, b, r) \<Longrightarrow> length r \<le> length s"
  using parsenum_from_length [of 0 False s] by (simp add: parsenum_def)

lemma argNumber_length: "argNumber g s = (r, a, g') \<Longrightarrow> length r \<le> length s"
  by (auto simp: argNumber_def split: list.splits if_splits prod.splits)

lemma width_step_length: "width_step s a g = (out, r, a', g') \<Longrightarrow> length r \<le> length s"
  by (auto simp: width_step_def split: list.splits if_splits prod.splits dest: parsenum_length)

lemma prec_step_length: "prec_step s a g = (out, r, a', g') \<Longrightarrow> length r \<le> length s"
  by (fastforce simp: prec_step_def split: list.splits if_splits prod.splits
        dest: parsenum_length argNumber_length)

lemma verb_step_length:
  assumes "verb_step s = (out, Some r)"
  shows "length r \<le> length s"
proof -
  obtain s1 a1 g1 where 1: "argNumber True (dropWhile is_flag s) = (s1, a1, g1)"
    by (cases "argNumber True (dropWhile is_flag s)") auto
  obtain o2 s2 a2 g2 where 2: "width_step s1 a1 g1 = (o2, s2, a2, g2)"
    by (cases "width_step s1 a1 g1") auto
  obtain o3 s3 a3 g3 where 3: "prec_step s2 a2 g2 = (o3, s3, a3, g3)"
    by (cases "prec_step s2 a2 g2") auto
  obtain s4 a4 g4 where 4:
    "(if \<not> a3 then argNumber g3 s3 else (s3, a3, g3)) = (s4, a4, g4)"
    by (cases "if \<not> a3 then argNumber g3 s3 else (s3, a3, g3)") auto
  have "length s1 \<le> length (dropWhile is_flag s)"
    using 1 by (rule argNumber_length)
  also have "\<dots> \<le> length s"
    by (rule length_dropWhile_le)
  finally have l1: "length s1 \<le> length s" .
  have l2: "length s2 \<le> length s1" using 2 by (rule width_step_length)
  have l3: "length s3 \<le> length s2" using 3 by (rule prec_step_length)
  have l4: "length s4 \<le> length s3"
    using 4 by (auto split: if_splits dest: argNumber_length)
  have "\<exists>k. r = drop k s4"
    using assms 1 2 3 4
    by (auto simp: verb_step_def split: if_splits prod.splits)
  then have "length r \<le> length s4" by auto
  with l1 l2 l3 l4 show ?thesis by linarith
qed

lemma doPrintf_shorter:
  assumes "dropWhile P format = c # s" and "(out, Some r) = verb_step s"
  shows "length r < length format"
proof -
  have "length r \<le> length s"
    using assms(2) verb_step_length [of s out r] by simp
  moreover have "length (c # s) \<le> length format"
    using length_dropWhile_le [of P format] assms(1) by simp
  ultimately show ?thesis by simp
qed

text \<open>
  The format loop: copy the text up to the next \<^verbatim>\<open>%\<close>, then process one verb.
\<close>

function doPrintf :: "string \<Rightarrow> string" where
  "doPrintf format =
     (let lit = takeWhile (\<lambda>c. c \<noteq> CHR ''%'') format in
      case dropWhile (\<lambda>c. c \<noteq> CHR ''%'') format of
        [] \<Rightarrow> lit
      | c # s \<Rightarrow>
          (case verb_step s of
             (out, None) \<Rightarrow> lit @ out
           | (out, Some s') \<Rightarrow> lit @ out @ doPrintf s'))"
  by pat_completeness auto
termination
  by (relation "measure length") (auto intro: doPrintf_shorter)

declare doPrintf.simps [simp del]

definition fmt_Sprintf :: "string \<Rightarrow> string" where
  \<comment> \<open>\<^verbatim>\<open>fmt.Sprintf(format)\<close> with no operands\<close>
  "fmt_Sprintf format = doPrintf format"

text \<open>
  With operands the package only uses constant formats made of \<^verbatim>\<open>%s\<close> (and one
  \<^verbatim>\<open>%w\<close>), which print each operand as it is, so those calls are written out as
  concatenations where they occur. \<^verbatim>\<open>strconv.FormatInt(i, 10)\<close> prints a decimal.
\<close>

function decimal :: "nat \<Rightarrow> string" where
  "decimal n = (if n < 10 then [char_of (48 + n)] else decimal (n div 10) @ [char_of (48 + n mod 10)])"
  by pat_completeness auto
termination
  by (relation "measure id") auto

declare decimal.simps [simp del]

definition strconv_FormatInt :: "int \<Rightarrow> string" where
  "strconv_FormatInt i = (if i < 0 then ''-'' @ decimal (nat (- i)) else decimal (nat i))"

subsection \<open>Library codes and net/http: the constants\<close>

type_synonym codes_Code = "32 word" \<comment> \<open>\<^verbatim>\<open>type Code uint32\<close>\<close>

abbreviation codes_OK :: codes_Code where "codes_OK \<equiv> 0"
abbreviation codes_Canceled :: codes_Code where "codes_Canceled \<equiv> 1"
abbreviation codes_Unknown :: codes_Code where "codes_Unknown \<equiv> 2"
abbreviation codes_InvalidArgument :: codes_Code where "codes_InvalidArgument \<equiv> 3"
abbreviation codes_DeadlineExceeded :: codes_Code where "codes_DeadlineExceeded \<equiv> 4"
abbreviation codes_NotFound :: codes_Code where "codes_NotFound \<equiv> 5"
abbreviation codes_AlreadyExists :: codes_Code where "codes_AlreadyExists \<equiv> 6"
abbreviation codes_PermissionDenied :: codes_Code where "codes_PermissionDenied \<equiv> 7"
abbreviation codes_ResourceExhausted :: codes_Code where "codes_ResourceExhausted \<equiv> 8"
abbreviation codes_FailedPrecondition :: codes_Code where "codes_FailedPrecondition \<equiv> 9"
abbreviation codes_Aborted :: codes_Code where "codes_Aborted \<equiv> 10"
abbreviation codes_OutOfRange :: codes_Code where "codes_OutOfRange \<equiv> 11"
abbreviation codes_Unimplemented :: codes_Code where "codes_Unimplemented \<equiv> 12"
abbreviation codes_Internal :: codes_Code where "codes_Internal \<equiv> 13"
abbreviation codes_Unavailable :: codes_Code where "codes_Unavailable \<equiv> 14"
abbreviation codes_DataLoss :: codes_Code where "codes_DataLoss \<equiv> 15"
abbreviation codes_Unauthenticated :: codes_Code where "codes_Unauthenticated \<equiv> 16"

definition Code_String :: "codes_Code \<Rightarrow> string" where
  \<comment> \<open>\<^verbatim>\<open>func (c Code) String() string\<close>\<close>
  "Code_String c =
     (if c = codes_OK then ''OK''
      else if c = codes_Canceled then ''Canceled''
      else if c = codes_Unknown then ''Unknown''
      else if c = codes_InvalidArgument then ''InvalidArgument''
      else if c = codes_DeadlineExceeded then ''DeadlineExceeded''
      else if c = codes_NotFound then ''NotFound''
      else if c = codes_AlreadyExists then ''AlreadyExists''
      else if c = codes_PermissionDenied then ''PermissionDenied''
      else if c = codes_ResourceExhausted then ''ResourceExhausted''
      else if c = codes_FailedPrecondition then ''FailedPrecondition''
      else if c = codes_Aborted then ''Aborted''
      else if c = codes_OutOfRange then ''OutOfRange''
      else if c = codes_Unimplemented then ''Unimplemented''
      else if c = codes_Internal then ''Internal''
      else if c = codes_Unavailable then ''Unavailable''
      else if c = codes_DataLoss then ''DataLoss''
      else if c = codes_Unauthenticated then ''Unauthenticated''
      else ''Code('' @ strconv_FormatInt (uint c) @ '')'')"

abbreviation http_StatusOK :: int where "http_StatusOK \<equiv> 200"
abbreviation http_StatusBadRequest :: int where "http_StatusBadRequest \<equiv> 400"
abbreviation http_StatusUnauthorized :: int where "http_StatusUnauthorized \<equiv> 401"
abbreviation http_StatusForbidden :: int where "http_StatusForbidden \<equiv> 403"
abbreviation http_StatusNotFound :: int where "http_StatusNotFound \<equiv> 404"
abbreviation http_StatusConflict :: int where "http_StatusConflict \<equiv> 409"
abbreviation http_StatusTooManyRequests :: int where "http_StatusTooManyRequests \<equiv> 429"
abbreviation http_StatusInternalServerError :: int where "http_StatusInternalServerError \<equiv> 500"
abbreviation http_StatusNotImplemented :: int where "http_StatusNotImplemented \<equiv> 501"
abbreviation http_StatusServiceUnavailable :: int where "http_StatusServiceUnavailable \<equiv> 503"
abbreviation http_StatusGatewayTimeout :: int where "http_StatusGatewayTimeout \<equiv> 504"

subsection \<open>Library ptypes: detail records\<close>

text \<open>
  A detail record is a \<^verbatim>\<open>proto.Message\<close> of the \<^verbatim>\<open>errdetails\<close> vocabulary. The package
  never looks inside one: it hands it to \<^verbatim>\<open>ptypes.MarshalAny\<close>, which may refuse it
  with an error, and later prints what \<^verbatim>\<open>ptypes.UnmarshalAny\<close> gives back with the
  record's \<^verbatim>\<open>String\<close> method. A record is modelled by those two observations:
  the text it prints, and the error \<^verbatim>\<open>MarshalAny\<close> returns for it, if any. A packed
  \<^verbatim>\<open>any.Any\<close> is modelled by what \<^verbatim>\<open>UnmarshalAny\<close> returns for it: an error text or
  a record; packing a record that marshals gives an \<^verbatim>\<open>Any\<close> that unpacks to it.
\<close>

datatype proto_Message = ProtoMessage (Message_String: string) (marshal_error: "string option")

datatype any_Any = Any (unmarshal: "string + proto_Message")

definition ptypes_MarshalAny :: "proto_Message \<Rightarrow> string + any_Any" where
  "ptypes_MarshalAny m =
     (case marshal_error m of Some e \<Rightarrow> Inl e | None \<Rightarrow> Inr (Any (Inr m)))"

definition ptypes_UnmarshalAny :: "any_Any \<Rightarrow> string + proto_Message" where
  "ptypes_UnmarshalAny a = unmarshal a"

subsection \<open>Library status\<close>

text \<open>
  \<^verbatim>\<open>spb.Status\<close> is the protobuf message; a \<^verbatim>\<open>*status.Status\<close> wraps a pointer to one
  and may be nil (\<open>None\<close>). The methods \<^verbatim>\<open>Code\<close>, \<^verbatim>\<open>Message\<close> and \<^verbatim>\<open>Details\<close> accept
  a nil receiver.
\<close>

record spb_Status =
  spb_Code :: codes_Code
  spb_Message :: string
  spb_Details :: "any_Any list"

type_synonym Status = "spb_Status option"

definition status_New :: "codes_Code \<Rightarrow> string \<Rightarrow> Status" where
  "status_New c msg = Some \<lparr>spb_Code = c, spb_Message = msg, spb_Details = []\<rparr>"

definition Status_Code :: "Status \<Rightarrow> codes_Code" where
  "Status_Code s = (case s of None \<Rightarrow> codes_OK | Some p \<Rightarrow> spb_Code p)"

definition Status_Message :: "Status \<Rightarrow> string" where
  "Status_Message s = (case s of None \<Rightarrow> [] | Some p \<Rightarrow> spb_Message p)"

text \<open>
  \<^verbatim>\<open>Details\<close> unpacks every \<^verbatim>\<open>Any\<close> in order; where unpacking fails the element is the
  error (\<open>Inl\<close>), otherwise the record (\<open>Inr\<close>).
\<close>

definition Status_Details :: "Status \<Rightarrow> (string + proto_Message) list" where
  "Status_Details s =
     (case s of None \<Rightarrow> [] | Some p \<Rightarrow> map ptypes_UnmarshalAny (spb_Details p))"

text \<open>
  A Go \<^verbatim>\<open>error\<close> is an interface value: nil (\<open>None\<close>) or a value of a concrete type.
  The concrete types are those this package and its callers build: \<^verbatim>\<open>errors.New\<close>
  gives an \<open>errorString\<close>, \<^verbatim>\<open>(*Status).Err\<close> a \<open>statusError\<close> (the only type with a
  \<^verbatim>\<open>GRPCStatus\<close> method), and \<^verbatim>\<open>fmt.Errorf\<close> with \<^verbatim>\<open>%w\<close> a \<open>wrapError\<close>.
\<close>

datatype err_value =
    errorString string
  | statusError spb_Status
  | wrapError string err_value

type_synonym error = "err_value option"

abbreviation nil :: error where "nil \<equiv> None"

fun Error :: "err_value \<Rightarrow> string" where
  "Error (errorString s) = s"
| "Error (statusError p) =
     ''rpc error: code = '' @ Code_String (spb_Code p) @ '' desc = '' @ spb_Message p"
| "Error (wrapError msg err) = msg"

text \<open>Calling a method on a nil interface value panics.\<close>

datatype panic = nil_dereference

definition error_Error :: "error \<Rightarrow> panic + string" where
  "error_Error err = (case err of None \<Rightarrow> Inl nil_dereference | Some e \<Rightarrow> Inr (Error e))"

definition errors_New :: "string \<Rightarrow> error" where
  "errors_New text = Some (errorString text)"

definition Status_Err :: "Status \<Rightarrow> error" where
  "Status_Err s =
     (case s of
        None \<Rightarrow> nil
      | Some p \<Rightarrow> if spb_Code p = codes_OK then nil else Some (statusError p))"

definition status_Error :: "codes_Code \<Rightarrow> string \<Rightarrow> error" where
  "status_Error c msg = Status_Err (status_New c msg)"

definition status_Errorf :: "codes_Code \<Rightarrow> string \<Rightarrow> error" where
  \<comment> \<open>\<^verbatim>\<open>Errorf(c, format)\<close> with no operands is \<^verbatim>\<open>Error(c, fmt.Sprintf(format))\<close>\<close>
  "status_Errorf c format = status_Error c (fmt_Sprintf format)"

text \<open>
  The \<^verbatim>\<open>grpc\<close> module is not part of the package and nothing in the package pins
  its release. The releases differ in one point the package can observe, so the
  release is a parameter \<open>g\<close> of \<^verbatim>\<open>FromError\<close> and of every function that reaches it.

  \<^verbatim>\<open>FromError\<close>: nil is a status (the nil one, which reads as OK); an error with a
  \<^verbatim>\<open>GRPCStatus\<close> method gives its status. For any other error, the releases before
  1.55 return an Unknown status holding the error's text, with \<^verbatim>\<open>ok = false\<close>; they
  do not look through wrapped errors. From 1.55 on, \<^verbatim>\<open>FromError\<close> first searches the
  chain of wrapped errors with \<^verbatim>\<open>errors.As\<close>: when it finds an error with a
  \<^verbatim>\<open>GRPCStatus\<close> method it returns a copy of that status whose message is the text
  of the outer error, with \<^verbatim>\<open>ok = true\<close>.
\<close>

datatype grpc_release = Before_1_55 | From_1_55

fun errors_As :: "err_value \<Rightarrow> spb_Status option" where
  \<comment> \<open>\<^verbatim>\<open>errors.As(err, &gs)\<close> for the interface with \<^verbatim>\<open>GRPCStatus\<close>: the first status error on the \<^verbatim>\<open>Unwrap\<close> chain\<close>
  "errors_As (statusError p) = Some p"
| "errors_As (wrapError msg err) = errors_As err"
| "errors_As (errorString s) = None"

fun status_FromError :: "grpc_release \<Rightarrow> error \<Rightarrow> Status \<times> bool" where
  "status_FromError g None = (None, True)"
| "status_FromError g (Some (statusError p)) = (Some p, True)"
| "status_FromError g (Some e) =
     (if g = From_1_55
      then (case errors_As e of
              Some p \<Rightarrow> (Some (p\<lparr>spb_Message := Error e\<rparr>), True)
            | None \<Rightarrow> (status_New codes_Unknown (Error e), False))
      else (status_New codes_Unknown (Error e), False))"

definition status_Convert :: "grpc_release \<Rightarrow> error \<Rightarrow> Status" where
  "status_Convert g err = fst (status_FromError g err)"

text \<open>
  \<^verbatim>\<open>WithDetails\<close> packs the records one after the other and appends them to a copy of
  the status; the first record that does not marshal ends it with that error.
\<close>

fun append_details :: "spb_Status \<Rightarrow> proto_Message list \<Rightarrow> string + spb_Status" where
  "append_details p [] = Inr p"
| "append_details p (detail # details) =
     (case ptypes_MarshalAny detail of
        Inl err \<Rightarrow> Inl err
      | Inr any \<Rightarrow> append_details (p\<lparr>spb_Details := spb_Details p @ [any]\<rparr>) details)"

definition Status_WithDetails :: "Status \<Rightarrow> proto_Message list \<Rightarrow> string + Status" where
  "Status_WithDetails s details =
     (if Status_Code s = codes_OK then Inl ''no error details for status with code OK''
      else (case s of
              None \<Rightarrow> Inl ''no error details for status with code OK''
            | Some p \<Rightarrow> map_sum id Some (append_details p details)))"

text \<open>
  \<^verbatim>\<open>%s\<close> on the slice that \<^verbatim>\<open>Details\<close> returns: \<^verbatim>\<open>[\<close>, the elements separated by one
  space, \<^verbatim>\<open>]\<close>. An element that is an error prints its text, a record prints its
  \<^verbatim>\<open>String\<close>.
\<close>

definition fmt_element :: "string + proto_Message \<Rightarrow> string" where
  "fmt_element x = (case x of Inl e \<Rightarrow> e | Inr m \<Rightarrow> Message_String m)"

fun fmt_elements :: "(string + proto_Message) list \<Rightarrow> string" where
  "fmt_elements [] = []"
| "fmt_elements [x] = fmt_element x"
| "fmt_elements (x # y # ys) = fmt_element x @ '' '' @ fmt_elements (y # ys)"

definition fmt_slice :: "(string + proto_Message) list \<Rightarrow> string" where
  "fmt_slice xs = ''['' @ fmt_elements xs @ '']''"

subsection \<open>The package: err.go\<close>

definition httpMap :: "codes_Code \<rightharpoonup> int" where
  "httpMap = map_of
     [(codes_OK, http_StatusOK),
      (codes_Canceled, 499),
      (codes_Unknown, http_StatusInternalServerError),
      (codes_InvalidArgument, http_StatusBadRequest),
      (codes_DeadlineExceeded, http_StatusGatewayTimeout),
      (codes_NotFound, http_StatusNotFound),
      (codes_AlreadyExists, http_StatusConflict),
      (codes_PermissionDenied, http_StatusForbidden),
      (codes_ResourceExhausted, http_StatusTooManyRequests),
      (codes_FailedPrecondition, http_StatusBadRequest),
      (codes_Aborted, http_StatusConflict),
      (codes_OutOfRange, http_StatusBadRequest),
      (codes_Unimplemented, http_StatusNotImplemented),
      (codes_Internal, http_StatusInternalServerError),
      (codes_Unavailable, http_StatusServiceUnavailable),
      (codes_DataLoss, http_StatusInternalServerError),
      (codes_Unauthenticated, http_StatusUnauthorized)]"

text \<open>Indexing a Go map with a key it does not hold gives the zero value.\<close>

definition httpMap_index :: "codes_Code \<Rightarrow> int" where
  "httpMap_index c = (case httpMap c of Some v \<Rightarrow> v | None \<Rightarrow> 0)"

type_synonym time_Time = nat

record RestErr =
  Code :: int
  Desc :: string
  Message :: string
  Details :: string

record SvcErr =
  Rest :: RestErr
  LocalTime :: time_Time

text \<open>
  \<^verbatim>\<open>Wrap\<close> is \<^verbatim>\<open>fmt.Errorf("%s:(%w)", text, err)\<close>: the text, then the error's
  \<^verbatim>\<open>Error()\<close> in parentheses; the result wraps \<^verbatim>\<open>err\<close>. For a nil \<^verbatim>\<open>err\<close> the verb
  prints \<^verbatim>\<open>%!w(<nil>)\<close> and nothing is wrapped.
\<close>

definition Wrap :: "string \<Rightarrow> error \<Rightarrow> error" where
  "Wrap text err =
     (case err of
        None \<Rightarrow> Some (errorString (text @ '':('' @ ''%!w(<nil>)'' @ '')''))
      | Some e \<Rightarrow> Some (wrapError (text @ '':('' @ Error e @ '')'') e))"

definition newErr :: "grpc_release \<Rightarrow> codes_Code \<Rightarrow> string \<Rightarrow> proto_Message list \<Rightarrow> error" where
  "newErr g c message details =
     (let err = status_Errorf c message in
      if length details \<noteq> 0
      then (let s = status_Convert g err in
            case Status_WithDetails s details of
              Inl lerr \<Rightarrow> err
            | Inr errDetail \<Rightarrow> Status_Err errDetail)
      else err)"

definition InvalidArgs :: "grpc_release \<Rightarrow> string \<Rightarrow> proto_Message list \<Rightarrow> error" where
  "InvalidArgs g msg details = newErr g codes_InvalidArgument msg details"

definition InternalErr :: "grpc_release \<Rightarrow> string \<Rightarrow> proto_Message list \<Rightarrow> error" where
  "InternalErr g msg details = newErr g codes_Internal msg details"

definition Unknown :: "grpc_release \<Rightarrow> string \<Rightarrow> proto_Message list \<Rightarrow> error" where
  "Unknown g msg details = newErr g codes_Unknown msg details"

definition NotFound :: "grpc_release \<Rightarrow> string \<Rightarrow> proto_Message list \<Rightarrow> error" where
  "NotFound g msg details = newErr g codes_NotFound msg details"

definition PermDenied :: "grpc_release \<Rightarrow> string \<Rightarrow> proto_Message list \<Rightarrow> error" where
  "PermDenied g msg details = newErr g codes_PermissionDenied msg details"

definition Canceled :: "grpc_release \<Rightarrow> string \<Rightarrow> proto_Message list \<Rightarrow> error" where
  "Canceled g msg details = newErr g codes_Canceled msg details"

definition DeadlineExceeded :: "grpc_release \<Rightarrow> string \<Rightarrow> proto_Message list \<Rightarrow> error" where
  "DeadlineExceeded g msg details = newErr g codes_DeadlineExceeded msg details"

definition AlreadyExists :: "grpc_release \<Rightarrow> string \<Rightarrow> proto_Message list \<Rightarrow> error" where
  "AlreadyExists g msg details = newErr g codes_AlreadyExists msg details"

definition ResourceExhausted :: "grpc_release \<Rightarrow> string \<Rightarrow> proto_Message list \<Rightarrow> error" where
  "ResourceExhausted g msg details = newErr g codes_ResourceExhausted msg details"

definition FailedPreCondition :: "grpc_release \<Rightarrow> string \<Rightarrow> proto_Message list \<Rightarrow> error" where
  "FailedPreCondition g msg details = newErr g codes_FailedPrecondition msg details"

definition Aborted :: "grpc_release \<Rightarrow> string \<Rightarrow> proto_Message list \<Rightarrow> error" where
  "Aborted g msg details = newErr g codes_Aborted msg details"

definition OutOfRange :: "grpc_release \<Rightarrow> string \<Rightarrow> proto_Message list \<Rightarrow> error" where
  "OutOfRange g msg details = newErr g codes_OutOfRange msg details"

definition Unimplemented :: "grpc_release \<Rightarrow> string \<Rightarrow> proto_Message list \<Rightarrow> error" where
  "Unimplemented g msg details = newErr g codes_Unimplemented msg details"

definition DataLoss :: "grpc_release \<Rightarrow> string \<Rightarrow> proto_Message list \<Rightarrow> error" where
  "DataLoss g msg details = newErr g codes_DataLoss msg details"

definition Unavailable :: "grpc_release \<Rightarrow> string \<Rightarrow> proto_Message list \<Rightarrow> error" where
  "Unavailable g msg details = newErr g codes_Unavailable msg details"

definition Unauthenticated :: "grpc_release \<Rightarrow> string \<Rightarrow> proto_Message list \<Rightarrow> error" where
  "Unauthenticated g msg details = newErr g codes_Unauthenticated msg details"

text \<open>
  \<^verbatim>\<open>ConvHTTP\<close> reads the clock for \<^verbatim>\<open>LocalTime\<close>; the reading is the argument \<open>now\<close>.
  In the second branch it calls \<^verbatim>\<open>err.Error()\<close>, which panics on a nil interface, so
  the result is a sum.
\<close>

definition ConvHTTP :: "grpc_release \<Rightarrow> time_Time \<Rightarrow> error \<Rightarrow> panic + SvcErr" where
  "ConvHTTP g now err =
     (case status_FromError g err of
        (st, ok) \<Rightarrow>
          if ok
          then Inr \<lparr>Rest = \<lparr>Code = httpMap_index (Status_Code st),
                             Desc = Code_String (Status_Code st),
                             Message = Status_Message st,
                             Details = fmt_slice (Status_Details st)\<rparr>,
                    LocalTime = now\<rparr>
          else (case error_Error err of
                  Inl p \<Rightarrow> Inl p
                | Inr text \<Rightarrow>
                    Inr \<lparr>Rest = \<lparr>Code = http_StatusInternalServerError,
                                   Desc = text,
                                   Message = [],
                                   Details = []\<rparr>,
                         LocalTime = now\<rparr>))"

definition IsValid :: "grpc_release \<Rightarrow> error \<Rightarrow> bool" where
  "IsValid g err = (case status_FromError g err of (st, ok) \<Rightarrow> ok)"

definition String :: "grpc_release \<Rightarrow> error \<Rightarrow> string" where
  "String g err =
     (case status_FromError g err of
        (s, ok) \<Rightarrow>
          if ok
          then ''Code = '' @ Code_String (Status_Code s) @ '', Message = '' @ Status_Message s
                 @ '', Details = '' @ fmt_slice (Status_Details s)
          else Status_Message s)"

definition Code_of :: "grpc_release \<Rightarrow> error \<Rightarrow> codes_Code" where
  \<comment> \<open>the package's \<^verbatim>\<open>Code\<close>; the name \<open>Code\<close> is the field of \<open>RestErr\<close>\<close>
  "Code_of g err =
     (case status_FromError g err of
        (s, ok) \<Rightarrow> if ok then Status_Code s else codes_Unknown)"

subsection \<open>The constructors, and the vocabulary of the properties\<close>

text \<open>The sixteen exported constructors, each with the code its body passes to \<^verbatim>\<open>newErr\<close>.\<close>

definition constructors :: "grpc_release \<Rightarrow> ((string \<Rightarrow> proto_Message list \<Rightarrow> error) \<times> codes_Code) list" where
  "constructors g =
     [(InvalidArgs g, codes_InvalidArgument),
      (InternalErr g, codes_Internal),
      (Unknown g, codes_Unknown),
      (NotFound g, codes_NotFound),
      (PermDenied g, codes_PermissionDenied),
      (Canceled g, codes_Canceled),
      (DeadlineExceeded g, codes_DeadlineExceeded),
      (AlreadyExists g, codes_AlreadyExists),
      (ResourceExhausted g, codes_ResourceExhausted),
      (FailedPreCondition g, codes_FailedPrecondition),
      (Aborted g, codes_Aborted),
      (OutOfRange g, codes_OutOfRange),
      (Unimplemented g, codes_Unimplemented),
      (DataLoss g, codes_DataLoss),
      (Unavailable g, codes_Unavailable),
      (Unauthenticated g, codes_Unauthenticated)]"

text \<open>
  The numeric mapping as the specification tabulates it, kind by kind. It is written
  from the specification's table, not from \<open>httpMap\<close>, and compared with the code below.
\<close>

definition spec_numeric_table :: "(codes_Code \<times> int) list" where
  "spec_numeric_table =
     [(codes_OK, 200), (codes_Canceled, 499), (codes_Unknown, 500),
      (codes_InvalidArgument, 400), (codes_DeadlineExceeded, 504), (codes_NotFound, 404),
      (codes_AlreadyExists, 409), (codes_PermissionDenied, 403),
      (codes_ResourceExhausted, 429), (codes_FailedPrecondition, 400), (codes_Aborted, 409),
      (codes_OutOfRange, 400), (codes_Unimplemented, 501), (codes_Internal, 500),
      (codes_Unavailable, 503), (codes_DataLoss, 500), (codes_Unauthenticated, 401)]"

text \<open>
  The renderings of a sequence of records, in order, one blank between neighbours:
  what the specification expects between the brackets of the serialized details.
\<close>

fun separated :: "string list \<Rightarrow> string" where
  "separated [] = []"
| "separated [x] = x"
| "separated (x # y # ys) = x @ '' '' @ separated (y # ys)"

text \<open>Well-formed detail records: \<^verbatim>\<open>MarshalAny\<close> accepts every one of them.\<close>

definition all_marshal :: "proto_Message list \<Rightarrow> bool" where
  "all_marshal details \<longleftrightarrow> list_all (\<lambda>d. marshal_error d = None) details"

definition pack :: "proto_Message \<Rightarrow> any_Any" where
  "pack d = Any (Inr d)"

section \<open>Properties\<close>

subsection \<open>The libraries\<close>

lemma doPrintf_no_verb:
  assumes "CHR ''%'' \<notin> set s"
  shows "doPrintf s = s"
proof -
  have t: "takeWhile (\<lambda>c. c \<noteq> CHR ''%'') s = s"
    and d: "dropWhile (\<lambda>c. c \<noteq> CHR ''%'') s = []"
    using assms by auto
  show ?thesis
    by (subst doPrintf.simps) (simp add: t d)
qed

lemma Code_String_17: "Code_String 17 = ''Code(17)''"
  by code_simp

lemma fmt_Sprintf_50_percent: "fmt_Sprintf ''50%'' = ''50%!(NOVERB)''"
  by code_simp

text \<open>A \<^verbatim>\<open>.\<close> that ends the format is read as the verb, not as a precision.\<close>

lemma fmt_Sprintf_trailing_dot: "fmt_Sprintf ''100%.'' = ''100%!.(MISSING)''"
  by code_simp

lemma fmt_Sprintf_index_dot: "fmt_Sprintf ''%[.'' = ''%!.(BADINDEX)''"
  by code_simp

lemma fmt_Sprintf_width_precision: "fmt_Sprintf ''%5.2f'' = ''%!f(MISSING)''"
  by (simp add: fmt_Sprintf_def doPrintf.simps verb_step_def argNumber_def is_flag_def
      width_step_def prec_step_def parsenum_def is_digit_def byte_def tooLarge_def
      decodeVerb_def)

lemma append_details_ok:
  "all_marshal ds \<Longrightarrow>
   append_details p ds = Inr (p\<lparr>spb_Details := spb_Details p @ map pack ds\<rparr>)"
  by (induction ds arbitrary: p) (auto simp: all_marshal_def ptypes_MarshalAny_def pack_def)

lemma append_details_fail:
  "\<not> all_marshal ds \<Longrightarrow> \<exists>e. append_details p ds = Inl e"
  by (induction ds arbitrary: p)
     (auto simp: all_marshal_def ptypes_MarshalAny_def split: option.splits)

lemma status_Errorf_eq:
  "c \<noteq> codes_OK \<Longrightarrow>
   status_Errorf c msg =
     Some (statusError \<lparr>spb_Code = c, spb_Message = fmt_Sprintf msg, spb_Details = []\<rparr>)"
  by (simp add: status_Errorf_def status_Error_def status_New_def Status_Err_def)

lemma WithDetails_fails_iff:
  assumes "c \<noteq> codes_OK"
  shows "(\<exists>lerr. Status_WithDetails (status_Convert g (status_Errorf c msg)) details = Inl lerr)
           \<longleftrightarrow> \<not> all_marshal details"
proof (cases "all_marshal details")
  case True
  then show ?thesis
    using assms
    by (simp add: status_Errorf_eq status_Convert_def Status_WithDetails_def Status_Code_def
        append_details_ok)
next
  case False
  then obtain e where
    "append_details \<lparr>spb_Code = c, spb_Message = fmt_Sprintf msg, spb_Details = []\<rparr> details = Inl e"
    using append_details_fail by blast
  then show ?thesis
    using assms False
    by (simp add: status_Errorf_eq status_Convert_def Status_WithDetails_def Status_Code_def)
qed

lemma fmt_elements_packed:
  "fmt_elements (map (ptypes_UnmarshalAny \<circ> pack) ds) = separated (map Message_String ds)"
  by (induction ds rule: induct_list012)
     (simp_all add: ptypes_UnmarshalAny_def pack_def fmt_element_def)

subsection \<open>What newErr builds\<close>

lemmas constructor_defs =
  InvalidArgs_def InternalErr_def Unknown_def NotFound_def PermDenied_def Canceled_def
  DeadlineExceeded_def AlreadyExists_def ResourceExhausted_def FailedPreCondition_def
  Aborted_def OutOfRange_def Unimplemented_def DataLoss_def Unavailable_def
  Unauthenticated_def

lemma constructors_newErr:
  assumes "(f, k) \<in> set (constructors g)"
  shows "f msg details = newErr g k msg details" and "k \<noteq> codes_OK"
  using assms by (auto simp: constructors_def constructor_defs)

text \<open>
  For a code other than OK, \<open>newErr\<close> returns a status error with that code and the
  message as \<^verbatim>\<open>Sprintf\<close> left it; it carries all the records when all of them marshal,
  and none otherwise.
\<close>

lemma newErr_eq:
  assumes "c \<noteq> codes_OK"
  shows "newErr g c msg ds =
     Some (statusError \<lparr>spb_Code = c, spb_Message = fmt_Sprintf msg,
                        spb_Details = (if all_marshal ds then map pack ds else [])\<rparr>)"
proof -
  let ?p = "\<lparr>spb_Code = c, spb_Message = fmt_Sprintf msg, spb_Details = []\<rparr>"
  have conv: "status_Convert g (Some (statusError ?p)) = Some ?p"
    by (simp add: status_Convert_def)
  show ?thesis
  proof (cases "all_marshal ds")
    case True
    have "Status_WithDetails (Some ?p) ds = Inr (Some (?p\<lparr>spb_Details := map pack ds\<rparr>))"
      using assms True by (simp add: Status_WithDetails_def Status_Code_def append_details_ok)
    then show ?thesis
      using assms True
      by (simp add: newErr_def conv Let_def Status_Err_def status_Errorf_eq)
  next
    case False
    then obtain e where "append_details ?p ds = Inl e"
      using append_details_fail by blast
    then have "Status_WithDetails (Some ?p) ds = Inl e"
      using assms by (simp add: Status_WithDetails_def Status_Code_def)
    then show ?thesis
      using assms False
      by (simp add: newErr_def conv Let_def status_Errorf_eq)
  qed
qed

text \<open>With the code OK, \<^verbatim>\<open>Err\<close> gives nil, with or without records.\<close>

lemma newErr_OK: "newErr g codes_OK msg ds = nil"
  by (simp add: newErr_def status_Errorf_def status_Error_def status_New_def Status_Err_def
      status_Convert_def Status_WithDetails_def Status_Code_def Let_def)

subsection \<open>The readers on a status error, on nil and on other errors\<close>

lemma ConvHTTP_status:
  "ConvHTTP g now (Some (statusError p)) =
     Inr \<lparr>Rest = \<lparr>Code = httpMap_index (spb_Code p), Desc = Code_String (spb_Code p),
                    Message = spb_Message p,
                    Details = fmt_slice (map ptypes_UnmarshalAny (spb_Details p))\<rparr>,
          LocalTime = now\<rparr>"
  by (simp add: ConvHTTP_def Status_Code_def Status_Message_def Status_Details_def)

lemma ConvHTTP_nil:
  "ConvHTTP g now nil =
     Inr \<lparr>Rest = \<lparr>Code = 200, Desc = ''OK'', Message = [], Details = ''[]''\<rparr>,
          LocalTime = now\<rparr>"
  by (simp add: ConvHTTP_def Status_Code_def Status_Message_def Status_Details_def
      httpMap_index_def httpMap_def Code_String_def fmt_slice_def)

text \<open>\<open>ConvHTTP\<close> never panics: it calls \<^verbatim>\<open>err.Error()\<close> only on a non-nil error.\<close>

lemma ConvHTTP_total: "\<exists>se. ConvHTTP g now err = Inr se"
  by (cases "(g, err)" rule: status_FromError.cases)
     (simp_all add: ConvHTTP_def error_Error_def split: option.splits)

lemma String_status:
  "String g (Some (statusError p)) =
     ''Code = '' @ Code_String (spb_Code p) @ '', Message = '' @ spb_Message p @
     '', Details = '' @ fmt_slice (map ptypes_UnmarshalAny (spb_Details p))"
  by (simp add: String_def Status_Code_def Status_Message_def Status_Details_def)

lemma Code_of_status: "Code_of g (Some (statusError p)) = spb_Code p"
  by (simp add: Code_of_def Status_Code_def)

text \<open>
  Which errors \<^verbatim>\<open>FromError\<close> accepts: nil and the status errors with every release,
  and from 1.55 on also the errors that wrap a status error.
\<close>

lemma IsValid_iff:
  "IsValid g err \<longleftrightarrow>
     err = nil \<or> (\<exists>p. err = Some (statusError p)) \<or>
     (g = From_1_55 \<and> (\<exists>e p. err = Some e \<and> errors_As e = Some p))"
  by (cases "(g, err)" rule: status_FromError.cases)
     (auto simp: IsValid_def split: option.splits)

lemma not_IsValid_FromError:
  assumes "\<not> IsValid g err"
  shows "\<exists>e. err = Some e \<and> status_FromError g err = (status_New codes_Unknown (Error e), False)"
  using assms
  by (cases "(g, err)" rule: status_FromError.cases)
     (auto simp: IsValid_def split: option.splits if_splits)

lemma httpMap_index_table: "(k, n) \<in> set spec_numeric_table \<Longrightarrow> httpMap_index k = n"
  by (auto simp: spec_numeric_table_def httpMap_index_def httpMap_def)

text \<open>A code that \<open>httpMap\<close> does not hold is translated to 0.\<close>

lemma httpMap_index_absent: "httpMap c = None \<Longrightarrow> httpMap_index c = 0"
  by (simp add: httpMap_index_def)

text \<open>The keys of \<open>httpMap\<close> are the codes 0 to 16; every larger code is absent.\<close>

lemma httpMap_None_iff: "httpMap c = None \<longleftrightarrow> 16 < c"
  unfolding httpMap_def
  apply simp
  apply unat_arith
  done

lemma ConvHTTP_absent_code:
  assumes "16 < spb_Code p"
  shows "\<exists>se. ConvHTTP g now (Some (statusError p)) = Inr se \<and> Code (Rest se) = 0"
  using assms by (simp add: ConvHTTP_status httpMap_index_absent httpMap_None_iff)

section \<open>The claims\<close>

text \<open>
  Claim C1. For every status kind and every message, translating (\<open>ConvHTTP\<close>) the
  error built for that kind yields exactly the numeric code the specification
  tabulates: OK 200, CANCELED 499, UNKNOWN 500, INVALID_ARGUMENT 400,
  DEADLINE_EXCEEDED 504, NOT_FOUND 404, ALREADY_EXISTS 409, PERMISSION_DENIED 403,
  RESOURCE_EXHAUSTED 429, FAILED_PRECONDITION 400, ABORTED 409, OUT_OF_RANGE 400,
  UNIMPLEMENTED 501, INTERNAL 500, UNAVAILABLE 503, DATA_LOSS 500, UNAUTHENTICATED 401.
  It holds for \<open>newErr\<close> at each of the seventeen kinds (OK has no exported
  constructor; \<open>newErr\<close> gives nil for it, which translates to 200) and for each of
  the sixteen constructors at its kind, whatever the message, the detail records and
  the grpc release.
\<close>

theorem ConvHTTP_numeric_code:
  assumes "(k, n) \<in> set spec_numeric_table"
  shows "(\<exists>se. ConvHTTP g now (newErr g k msg details) = Inr se \<and> Code (Rest se) = n) \<and>
         (\<forall>f. (f, k) \<in> set (constructors g) \<longrightarrow>
            (\<exists>se. ConvHTTP g now (f msg details) = Inr se \<and> Code (Rest se) = n))"
proof -
  have n: "httpMap_index k = n"
    using assms by (rule httpMap_index_table)
  have "\<exists>se. ConvHTTP g now (newErr g k msg details) = Inr se \<and> Code (Rest se) = n"
  proof (cases "k = codes_OK")
    case True
    with n have "n = 200" by (simp add: httpMap_index_def httpMap_def)
    with True show ?thesis by (simp add: newErr_OK ConvHTTP_nil)
  next
    case False
    then show ?thesis by (simp add: newErr_eq ConvHTTP_status n)
  qed
  then show ?thesis
    by (auto simp: constructors_newErr(1))
qed

theorem ConvHTTP_numeric_code_witness:
  "(codes_NotFound, 404) \<in> set spec_numeric_table \<and>
   (NotFound From_1_55, codes_NotFound) \<in> set (constructors From_1_55) \<and>
   (\<exists>se. ConvHTTP From_1_55 0 (newErr From_1_55 codes_NotFound ''Not Found'' []) = Inr se \<and>
         Code (Rest se) = 404) \<and>
   (\<exists>se. ConvHTTP From_1_55 0 (NotFound From_1_55 ''Not Found'' []) = Inr se \<and>
         Code (Rest se) = 404)"
proof -
  have h1: "(codes_NotFound, 404) \<in> set spec_numeric_table"
    by (simp add: spec_numeric_table_def)
  have h2: "(NotFound From_1_55, codes_NotFound) \<in> set (constructors From_1_55)"
    by (simp add: constructors_def)
  show ?thesis
    using h1 h2 ConvHTTP_numeric_code [OF h1, of From_1_55 0 "''Not Found''" "[]"] by blast
qed

text \<open>
  Claim C2, as stated: for every plain textual error, translation yields numeric code
  500, an empty short description (\<open>Desc\<close>), the error's own text as message, and empty
  serialized details. The code fills the fields the other way round: for
  \<^verbatim>\<open>errors.New("Generic")\<close> the text is in \<open>Desc\<close> and \<open>Message\<close> is empty, as the
  package's own test of \<open>ConvHTTP\<close> expects; so with either grpc release.
\<close>

theorem ConvHTTP_plain_error_counterexample:
  "ConvHTTP Before_1_55 0 (errors_New ''Generic'') =
     Inr \<lparr>Rest = \<lparr>Code = 500, Desc = ''Generic'', Message = [], Details = []\<rparr>,
          LocalTime = 0\<rparr> \<and>
   ConvHTTP Before_1_55 0 (errors_New ''Generic'') \<noteq>
     Inr \<lparr>Rest = \<lparr>Code = 500, Desc = [], Message = ''Generic'', Details = []\<rparr>,
          LocalTime = 0\<rparr> \<and>
   ConvHTTP From_1_55 0 (errors_New ''Generic'') =
     Inr \<lparr>Rest = \<lparr>Code = 500, Desc = ''Generic'', Message = [], Details = []\<rparr>,
          LocalTime = 0\<rparr> \<and>
   ConvHTTP From_1_55 0 (errors_New ''Generic'') \<noteq>
     Inr \<lparr>Rest = \<lparr>Code = 500, Desc = [], Message = ''Generic'', Details = []\<rparr>,
          LocalTime = 0\<rparr>"
  by (simp add: errors_New_def ConvHTTP_def error_Error_def)

text \<open>
  Claim C2, amended: for every error that does not carry status information,
  translation yields numeric code 500, the error's own text as short description
  (\<open>Desc\<close>), an empty message and empty serialized details.
\<close>

theorem ConvHTTP_plain_error:
  assumes "\<not> IsValid g err"
  shows "\<exists>e. err = Some e \<and>
           ConvHTTP g now err =
             Inr \<lparr>Rest = \<lparr>Code = 500, Desc = Error e, Message = [], Details = []\<rparr>,
                  LocalTime = now\<rparr>"
proof -
  obtain e where e: "err = Some e"
    and f: "status_FromError g err = (status_New codes_Unknown (Error e), False)"
    using not_IsValid_FromError [OF assms] by blast
  show ?thesis
    using e f by (simp add: ConvHTTP_def error_Error_def)
qed

theorem ConvHTTP_plain_error_witness:
  "\<not> IsValid Before_1_55 (errors_New ''Generic'') \<and>
   ConvHTTP Before_1_55 0 (errors_New ''Generic'') =
     Inr \<lparr>Rest = \<lparr>Code = 500, Desc = ''Generic'', Message = [], Details = []\<rparr>,
          LocalTime = 0\<rparr> \<and>
   \<not> IsValid From_1_55 (errors_New ''Generic'') \<and>
   ConvHTTP From_1_55 0 (errors_New ''Generic'') =
     Inr \<lparr>Rest = \<lparr>Code = 500, Desc = ''Generic'', Message = [], Details = []\<rparr>,
          LocalTime = 0\<rparr>"
proof -
  have h1: "\<not> IsValid Before_1_55 (errors_New ''Generic'')"
    by (simp add: errors_New_def IsValid_def)
  have h2: "\<not> IsValid From_1_55 (errors_New ''Generic'')"
    by (simp add: errors_New_def IsValid_def)
  show ?thesis
    using h1 h2 ConvHTTP_plain_error [OF h1, of 0] ConvHTTP_plain_error [OF h2, of 0]
    by (auto simp: errors_New_def)
qed

text \<open>
  Claim C3: for a status error whose code is not among the keys of \<open>httpMap\<close>,
  \<open>ConvHTTP\<close> returns the numeric code 500 and does not crash. The code indexes the
  map without testing for the key, so it returns Go's zero value: for the status
  \<^verbatim>\<open>status.New(codes.Code(17), msg)\<close> the numeric code is 0, not 500. (It does not
  crash: see \<open>ConvHTTP_total\<close>.)
\<close>

theorem ConvHTTP_code_outside_table:
  "ConvHTTP g now (Status_Err (status_New 17 msg)) =
     Inr \<lparr>Rest = \<lparr>Code = 0, Desc = ''Code(17)'', Message = msg, Details = ''[]''\<rparr>,
          LocalTime = now\<rparr>"
  by (simp add: Status_Err_def status_New_def ConvHTTP_status httpMap_index_def httpMap_def
      Code_String_17 fmt_slice_def)

text \<open>
  Claim C4: for each constructor and every message \<open>msg\<close>, the error built with no
  detail records renders (\<open>String\<close>) as
  \<^verbatim>\<open>Code = <kindName>, Message = <msg>, Details = []\<close> with \<open>msg\<close> verbatim. The
  constructor passes the message to \<^verbatim>\<open>status.Errorf\<close> as the format, so a message
  holding a \<^verbatim>\<open>%\<close> is rewritten: \<^verbatim>\<open>InvalidArgs("50%")\<close> renders with the message
  \<^verbatim>\<open>50%!(NOVERB)\<close>. For a message without \<^verbatim>\<open>%\<close> the rendering is as claimed
  (\<open>String_plain_message\<close> below).
\<close>

theorem String_message_with_percent:
  "String g (InvalidArgs g ''50%'' []) =
     ''Code = InvalidArgument, Message = 50%!(NOVERB), Details = []''"
  by (simp add: InvalidArgs_def newErr_eq String_status fmt_Sprintf_50_percent fmt_slice_def
      all_marshal_def Code_String_def)

lemma String_plain_message:
  assumes "(f, k) \<in> set (constructors g)" and "CHR ''%'' \<notin> set msg"
  shows "String g (f msg []) =
           ''Code = '' @ Code_String k @ '', Message = '' @ msg @ '', Details = []''"
  using assms
  by (simp add: constructors_newErr newErr_eq String_status fmt_Sprintf_def doPrintf_no_verb
      fmt_slice_def all_marshal_def)

text \<open>
  Claim C5: when attaching a non-empty sequence of records fails, the constructor
  returns the undecorated error of the same kind and the same message, with no
  details, and never surfaces the attachment error; the result is never nil. The
  fallback is the error \<^verbatim>\<open>status.Errorf(c, message)\<close> built at the start of \<open>newErr\<close>,
  whose message went through \<^verbatim>\<open>Sprintf\<close> as a format: for \<^verbatim>\<open>InvalidArgs("50%", d)\<close>
  with a record \<open>d\<close> that does not marshal, attachment fails and the error returned
  has the kind and no details, but its message is \<^verbatim>\<open>50%!(NOVERB)\<close>, not the
  message passed. It is the defect of claim C4, seen on the fallback path. What the
  fallback does keep is in \<open>newErr_fail_soft\<close> below.
\<close>

theorem newErr_attachment_failure_message:
  "Status_WithDetails (status_Convert g (status_Errorf codes_InvalidArgument ''50%''))
     [ProtoMessage ''x'' (Some ''cannot marshal'')] = Inl ''cannot marshal'' \<and>
   InvalidArgs g ''50%'' [ProtoMessage ''x'' (Some ''cannot marshal'')] =
     Some (statusError \<lparr>spb_Code = codes_InvalidArgument, spb_Message = ''50%!(NOVERB)'',
                        spb_Details = []\<rparr>) \<and>
   Status_Message (status_Convert g
     (InvalidArgs g ''50%'' [ProtoMessage ''x'' (Some ''cannot marshal'')])) \<noteq> ''50%''"
  by (simp add: InvalidArgs_def newErr_eq status_Errorf_eq status_Convert_def
      Status_WithDetails_def Status_Code_def Status_Message_def ptypes_MarshalAny_def
      all_marshal_def fmt_Sprintf_50_percent)

text \<open>
  The fail-soft path itself: every constructor returns a non-nil error, and when
  \<^verbatim>\<open>WithDetails\<close> fails it returns the error \<^verbatim>\<open>status.Errorf\<close> built, which is the
  one it returns for no records: the bound kind, the message as \<^verbatim>\<open>Sprintf\<close> left
  it, no details. For a message without \<^verbatim>\<open>%\<close> that message is the message passed.
\<close>

lemma newErr_fail_soft:
  assumes "(f, k) \<in> set (constructors g)"
  shows "f msg details \<noteq> nil \<and>
         (\<forall>lerr. details \<noteq> [] \<and>
                 Status_WithDetails (status_Convert g (status_Errorf k msg)) details = Inl lerr \<longrightarrow>
            f msg details = status_Errorf k msg \<and>
            f msg details = f msg [] \<and>
            Code_of g (f msg details) = k \<and>
            Status_Message (status_Convert g (f msg details)) = fmt_Sprintf msg \<and>
            Status_Details (status_Convert g (f msg details)) = [])"
proof -
  have k: "k \<noteq> codes_OK" and f: "\<And>m ds. f m ds = newErr g k m ds"
    using assms by (simp_all add: constructors_newErr)
  have "f msg details \<noteq> nil"
    by (simp add: f newErr_eq [OF k])
  moreover
  { fix lerr
    assume "Status_WithDetails (status_Convert g (status_Errorf k msg)) details = Inl lerr"
    then have "\<not> all_marshal details"
      using WithDetails_fails_iff [OF k, of g msg details] by blast
    then have "f msg details = status_Errorf k msg \<and> f msg details = f msg [] \<and>
               Code_of g (f msg details) = k \<and>
               Status_Message (status_Convert g (f msg details)) = fmt_Sprintf msg \<and>
               Status_Details (status_Convert g (f msg details)) = []"
      by (simp add: f newErr_eq [OF k] status_Errorf_eq [OF k] Code_of_status
          status_Convert_def Status_Details_def Status_Message_def all_marshal_def) }
  ultimately show ?thesis by blast
qed

lemma newErr_fail_soft_plain_message:
  assumes "(f, k) \<in> set (constructors g)" and "CHR ''%'' \<notin> set msg"
    and "details \<noteq> []"
    and "Status_WithDetails (status_Convert g (status_Errorf k msg)) details = Inl lerr"
  shows "f msg details =
           Some (statusError \<lparr>spb_Code = k, spb_Message = msg, spb_Details = []\<rparr>)"
proof -
  have k: "k \<noteq> codes_OK"
    using assms(1) by (rule constructors_newErr(2))
  have "f msg details = status_Errorf k msg"
    using newErr_fail_soft [OF assms(1), of msg details] assms(3,4) by blast
  then show ?thesis
    using assms(2) by (simp add: status_Errorf_eq [OF k] fmt_Sprintf_def doPrintf_no_verb)
qed

text \<open>
  Claim C6: \<open>IsValid\<close> is true for every error produced by any of the sixteen
  constructors, with or without detail records, and false for every plain textual
  error made from a bare message (\<^verbatim>\<open>errors.New\<close>).
\<close>

theorem IsValid_constructed:
  "(\<forall>(f, k) \<in> set (constructors g). IsValid g (f msg details)) \<and>
   \<not> IsValid g (errors_New text)"
proof -
  have "IsValid g (f msg details)" if "(f, k) \<in> set (constructors g)" for f k
    using that by (simp add: constructors_newErr newErr_eq IsValid_def)
  moreover have "\<not> IsValid g (errors_New text)"
    by (simp add: errors_New_def IsValid_def)
  ultimately show ?thesis by blast
qed

theorem IsValid_constructed_witness:
  "(ResourceExhausted Before_1_55, codes_ResourceExhausted) \<in> set (constructors Before_1_55) \<and>
   IsValid Before_1_55 (ResourceExhausted Before_1_55 ''Resource Exhausted'' []) \<and>
   \<not> IsValid Before_1_55 (errors_New ''Test Error'')"
proof -
  have h: "(ResourceExhausted Before_1_55, codes_ResourceExhausted)
             \<in> set (constructors Before_1_55)"
    by (simp add: constructors_def)
  show ?thesis
    using h IsValid_constructed [of Before_1_55 "''Resource Exhausted''" "[]" "''Test Error''"]
    by blast
qed

text \<open>
  Claim C7, as stated: for every text and every error \<open>e\<close> produced by a constructor,
  \<open>Wrap text e\<close> has the text \<^verbatim>\<open><text>:(<e's text>)\<close>, and it is a plain textual
  error: \<open>IsValid\<close> is false on it. \<open>Wrap\<close> wraps with \<^verbatim>\<open>%w\<close>, so the status error
  stays reachable through \<^verbatim>\<open>Unwrap\<close>, and \<open>IsValid\<close> is \<^verbatim>\<open>status.FromError\<close>: with a
  grpc release from 1.55 on, which searches the wrapped errors, \<open>IsValid\<close> is true on
  the specification's own example.
\<close>

theorem Wrap_IsValid_counterexample:
  "IsValid From_1_55 (Wrap ''Outer Text'' (NotFound From_1_55 ''Not Found'' []))"
  by (simp add: NotFound_def newErr_eq Wrap_def IsValid_def)

text \<open>
  Claim C7, amended: for every text and every error \<open>e\<close> produced by a constructor,
  \<open>Wrap text e\<close> is an error whose text is \<^verbatim>\<open><text>:(<e's text>)\<close> exactly; \<open>IsValid\<close>
  on the wrapped result is false when the package is built with a grpc release
  before 1.55, whose \<^verbatim>\<open>FromError\<close> does not look through wrapped errors, and true
  from 1.55 on.
\<close>

theorem Wrap_rendering:
  assumes "(f, k) \<in> set (constructors g)"
  shows "\<exists>e w. f msg details = Some e \<and> Wrap text (f msg details) = Some w \<and>
           Error w = text @ '':('' @ Error e @ '')'' \<and>
           (g = Before_1_55 \<longrightarrow> \<not> IsValid g (Wrap text (f msg details))) \<and>
           (g = From_1_55 \<longrightarrow> IsValid g (Wrap text (f msg details)))"
  using assms
  by (simp add: constructors_newErr newErr_eq Wrap_def IsValid_def)

theorem Wrap_rendering_witness:
  "(NotFound Before_1_55, codes_NotFound) \<in> set (constructors Before_1_55) \<and>
   (\<exists>e w. NotFound Before_1_55 ''Not Found'' [] = Some e \<and>
          Wrap ''Outer Text'' (NotFound Before_1_55 ''Not Found'' []) = Some w \<and>
          Error w = ''Outer Text'' @ '':('' @ Error e @ '')'') \<and>
   \<not> IsValid Before_1_55 (Wrap ''Outer Text'' (NotFound Before_1_55 ''Not Found'' [])) \<and>
   (NotFound From_1_55, codes_NotFound) \<in> set (constructors From_1_55) \<and>
   IsValid From_1_55 (Wrap ''Outer Text'' (NotFound From_1_55 ''Not Found'' []))"
proof -
  have h1: "(NotFound Before_1_55, codes_NotFound) \<in> set (constructors Before_1_55)"
    by (simp add: constructors_def)
  have h2: "(NotFound From_1_55, codes_NotFound) \<in> set (constructors From_1_55)"
    by (simp add: constructors_def)
  show ?thesis
    using h1 h2 Wrap_rendering [OF h1, of "''Not Found''" "[]" "''Outer Text''"]
      Wrap_rendering [OF h2, of "''Not Found''" "[]" "''Outer Text''"]
    by blast
qed

text \<open>
  What the readers return on the wrapped error, by release: before 1.55 \<open>String\<close>
  gives the wrapped text and \<open>Code\<close> gives Unknown; from 1.55 on they give the kind
  of the wrapped status error.
\<close>

lemma Wrap_readers:
  assumes "(f, k) \<in> set (constructors g)" and "f msg details = Some e"
  shows "g = Before_1_55 \<Longrightarrow>
           String g (Wrap text (f msg details)) = text @ '':('' @ Error e @ '')'' \<and>
           Code_of g (Wrap text (f msg details)) = codes_Unknown"
    and "g = From_1_55 \<Longrightarrow> Code_of g (Wrap text (f msg details)) = k"
  using assms
  by (auto simp: constructors_newErr newErr_eq Wrap_def String_def Code_of_def status_New_def
      Status_Message_def Status_Code_def)

text \<open>
  Claim C8: \<open>Code\<close> (here \<open>Code_of\<close>) is total; for every error produced by one of the
  sixteen constructors it returns the kind bound to that constructor, and for every
  error that is not a status error it returns UNKNOWN. The function has no failing
  branch: the methods it calls accept a nil status.
\<close>

theorem Code_of_kind:
  "(\<forall>(f, k) \<in> set (constructors g). Code_of g (f msg details) = k) \<and>
   (\<not> IsValid g err \<longrightarrow> Code_of g err = codes_Unknown)"
proof -
  have "Code_of g (f msg details) = k" if "(f, k) \<in> set (constructors g)" for f k
    using that by (simp add: constructors_newErr newErr_eq Code_of_status)
  moreover have "Code_of g err = codes_Unknown" if "\<not> IsValid g err"
    using not_IsValid_FromError [OF that] by (auto simp: Code_of_def)
  ultimately show ?thesis by auto
qed

theorem Code_of_kind_witness:
  "(Unavailable Before_1_55, codes_Unavailable) \<in> set (constructors Before_1_55) \<and>
   Code_of Before_1_55 (Unavailable Before_1_55 ''Unavailable'' []) = codes_Unavailable \<and>
   \<not> IsValid Before_1_55 (errors_New ''Test Error'') \<and>
   Code_of Before_1_55 (errors_New ''Test Error'') = codes_Unknown"
proof -
  have h1: "(Unavailable Before_1_55, codes_Unavailable) \<in> set (constructors Before_1_55)"
    by (simp add: constructors_def)
  have h2: "\<not> IsValid Before_1_55 (errors_New ''Test Error'')"
    by (simp add: errors_New_def IsValid_def)
  show ?thesis
    using h1 h2
      Code_of_kind [of Before_1_55 "''Unavailable''" "[]" "errors_New ''Test Error''"]
    by fastforce
qed

text \<open>
  Claim C9: for every constructor, building an error with N well-formed detail
  records and translating it yields serialized details that hold the N records'
  renderings in the order of attachment (between brackets, one blank between
  neighbours); with no records the serialized details are the literal \<^verbatim>\<open>[]\<close>, not
  an empty field.
\<close>

theorem ConvHTTP_details_order:
  assumes "(f, k) \<in> set (constructors g)" and "all_marshal details"
  shows "(\<exists>se. ConvHTTP g now (f msg details) = Inr se \<and>
                Details (Rest se) = ''['' @ separated (map Message_String details) @ '']'') \<and>
         (\<exists>se. ConvHTTP g now (f msg []) = Inr se \<and> Details (Rest se) = ''[]'')"
  using assms
  by (simp add: constructors_newErr newErr_eq ConvHTTP_status fmt_slice_def fmt_elements_packed
      all_marshal_def)

theorem ConvHTTP_details_order_witness:
  "(InvalidArgs Before_1_55, codes_InvalidArgument) \<in> set (constructors Before_1_55) \<and>
   all_marshal [ProtoMessage ''first'' None, ProtoMessage ''second'' None,
                ProtoMessage ''third'' None] \<and>
   (\<exists>se. ConvHTTP Before_1_55 0 (InvalidArgs Before_1_55 ''Invalid msg''
                       [ProtoMessage ''first'' None, ProtoMessage ''second'' None,
                        ProtoMessage ''third'' None]) = Inr se \<and>
         Details (Rest se) = ''[first second third]'') \<and>
   (\<exists>se. ConvHTTP Before_1_55 0 (InvalidArgs Before_1_55 ''Invalid msg'' []) = Inr se \<and>
         Details (Rest se) = ''[]'')"
proof -
  have h1: "(InvalidArgs Before_1_55, codes_InvalidArgument) \<in> set (constructors Before_1_55)"
    by (simp add: constructors_def)
  have h2: "all_marshal [ProtoMessage ''first'' None, ProtoMessage ''second'' None,
                         ProtoMessage ''third'' None]"
    by (simp add: all_marshal_def)
  show ?thesis
    using h1 h2 ConvHTTP_details_order [OF h1 h2, of 0 "''Invalid msg''"] by simp
qed

text \<open>
  Claim C10: on a nil error the readers treat nil as a status error: \<open>IsValid\<close> is
  true on nil, and \<open>Code\<close> (\<open>Code_of\<close>) of nil is OK, not UNKNOWN, because
  \<^verbatim>\<open>status.FromError\<close> reports success for nil.
\<close>

theorem nil_is_valid_and_OK: "IsValid g nil \<and> Code_of g nil = codes_OK"
  by (simp add: IsValid_def Code_of_def Status_Code_def)

subsection \<open>The package's own tests and examples\<close>

text \<open>
  The cases of \<^verbatim>\<open>TestWrap\<close>, \<^verbatim>\<open>TestConvHTTP\<close>, \<^verbatim>\<open>TestString\<close> and
  \<^verbatim>\<open>ExampleInvalidArgs\<close>, run on the model; they do not depend on the grpc release.
\<close>

lemma test_Wrap:
  "map_option Error (Wrap ''Outer Text'' (NotFound g ''Not Found'' [])) =
     Some ''Outer Text:(rpc error: code = NotFound desc = Not Found)''"
  by (simp add: NotFound_def newErr_eq Wrap_def all_marshal_def fmt_Sprintf_def
      doPrintf_no_verb Code_String_def)

lemma test_ConvHTTP_InvalidArgs:
  "ConvHTTP g 0 (InvalidArgs g ''Invalid Args'' []) =
     Inr \<lparr>Rest = \<lparr>Code = http_StatusBadRequest, Desc = ''InvalidArgument'',
                    Message = ''Invalid Args'', Details = ''[]''\<rparr>,
          LocalTime = 0\<rparr>"
  by (simp add: InvalidArgs_def newErr_eq ConvHTTP_status all_marshal_def fmt_Sprintf_def
      doPrintf_no_verb Code_String_def httpMap_index_def httpMap_def fmt_slice_def)

lemma test_String_InvalidArgs:
  "String g (InvalidArgs g ''test'' []) = ''Code = InvalidArgument, Message = test, Details = []''"
  by (simp add: InvalidArgs_def newErr_eq String_status all_marshal_def fmt_Sprintf_def
      doPrintf_no_verb Code_String_def fmt_slice_def)

lemma test_String_generic: "String g (errors_New ''test'') = ''test''"
  by (simp add: errors_New_def String_def status_New_def Status_Message_def)

lemma example_InvalidArgs_with_details:
  "String g (InvalidArgs g ''Additional Message'' [ProtoMessage ''field_violations:<> '' None]) =
     ''Code = InvalidArgument, Message = Additional Message, Details = [field_violations:<> ]''"
  by (simp add: InvalidArgs_def newErr_eq String_status all_marshal_def fmt_Sprintf_def
      doPrintf_no_verb Code_String_def fmt_slice_def pack_def ptypes_UnmarshalAny_def
      fmt_element_def)

end
